theory Spec2Isabelle
  imports Main
begin

section \<open>Errors\<close>

text \<open>
  A Go \<open>error\<close> value.  \<open>ChannelClosed\<close> is the package variable
  \<open>var ChannelClosed = fmt.Errorf("Channel closed!")\<close>: callers compare against it by
  identity, so it is a constructor of its own.  \<open>AmqpErr s\<close> is an error handed back by the
  broker client library whose \<open>Error()\<close> text is \<open>s\<close>; \<open>Errorf s\<close> is a fresh
  error built by \<open>fmt.Errorf\<close> with the formatted text \<open>s\<close>; \<open>Panic s\<close> stands for a
  run-time panic (a method call through a nil interface).  The last three are the
  errors that the specification names for the consumer and publisher operations: a consume
  that timed out, a publish that the broker rejected, and an acknowledgment or rejection
  asked for while nothing is pending.
\<close>

datatype error =
    ChannelClosed
  | AmqpErr string
  | Errorf string
  | Panic string
  | TimeoutError
  | DeliveryFailedError
  | NothingPendingError

fun error_string :: "error \<Rightarrow> string" where
  "error_string ChannelClosed = ''Channel closed!''"
| "error_string (AmqpErr s) = s"
| "error_string (Errorf s) = s"
| "error_string (Panic s) = s"
| "error_string TimeoutError = ''TimeoutError''"
| "error_string DeliveryFailedError = ''DeliveryFailedError''"
| "error_string NothingPendingError = ''NothingPendingError''"

section \<open>Configuration and the relay\<close>

datatype Serializer = GOBSerializer | CustomSerializer string

record Config =
  Addr :: string
  Port :: int
  Vhost :: string
  Username :: string
  Password :: string
  EnableTLS :: bool
  PrefetchCount :: int
  EnableMultiAck :: bool
  DisablePublishConfirm :: bool
  DisablePersistence :: bool
  Exchange :: string
  Serializer :: "Serializer option"

text \<open>Handles of the broker client: a connection or a channel is named by the position in
  the event history of the call that created it, so two dials never give the same handle.\<close>

type_synonym conn = nat
type_synonym chan = nat

text \<open>\<open>mutex\<close> is the embedded \<open>sync.Mutex\<close>: \<open>True\<close> while some caller holds it.\<close>

record Relay =
  mutex :: bool
  conf :: Config
  pubConn :: "conn option"
  consConn :: "conn option"

text \<open>The two \<open>**amqp.Connection\<close> arguments the source ever passes:
  \<open>&r.pubConn\<close> and \<open>&r.consConn\<close>.\<close>

datatype conn_ref = PubConnRef | ConsConnRef

fun deref :: "conn_ref \<Rightarrow> Relay \<Rightarrow> conn option" where
  "deref PubConnRef r = pubConn r"
| "deref ConsConnRef r = consConn r"

fun assign :: "conn_ref \<Rightarrow> conn option \<Rightarrow> Relay \<Rightarrow> Relay" where
  "assign PubConnRef v r = r\<lparr>pubConn := v\<rparr>"
| "assign ConsConnRef v r = r\<lparr>consConn := v\<rparr>"

text \<open>The \<open>amqp.URI\<close> struct filled in by \<open>getConn\<close>.\<close>

record URI =
  uri_Scheme :: string
  uri_Host :: string
  uri_Port :: int
  uri_Username :: string
  uri_Password :: string
  uri_Vhost :: string

text \<open>The \<open>amqp.Error\<close> struct delivered on a close-notification channel.\<close>

record amqp_Error =
  err_Code :: int
  err_Reason :: string
  err_Server :: bool
  err_Recover :: bool

datatype delivery_mode = Transient | Persistent

text \<open>A Go channel made for the publisher's notifications, named by its purpose and by the
  position in the history of the call that registered it.\<close>

datatype gochan = ErrChan nat | AckChan nat | NackChan nat

record Consumer =
  cons_conf :: Config
  consName :: string
  cons_queue :: string
  cons_channel :: "chan option"
  readCh :: nat
  lastMsg :: nat
  needAck :: bool

record Publisher =
  pub_conf :: Config
  pub_queue :: string
  pub_channel :: "chan option"
  contentType :: string
  mode :: delivery_mode
  ackCh :: "gochan option"
  nackCh :: "gochan option"
  errCh :: "gochan option"

section \<open>Effects: the event history\<close>

text \<open>
  Every call into the broker client library and every run-time effect of the source
  (starting a goroutine, registering a finalizer, writing a log line) is appended to an
  event history, oldest first.  The arguments are those of the source, in its order.
\<close>

datatype finalized = RelayObj Config | ConsumerObj Consumer | PublisherObj Publisher

datatype event =
    Dial URI
  | NotifyClose conn
  | GoWatchConn conn_ref conn
  | OpenChannel conn
  | ExchangeDeclare chan string string bool bool bool bool
  | QueueDeclare chan string bool bool bool bool
  | QueueBind chan string string string bool
  | Qos chan int int bool
  | Consume chan string string bool bool bool bool
  | ChanNotifyClose chan
  | ChanNotifyConfirm chan
  | Confirm chan bool
  | ConnClose conn
  | SetFinalizer finalized
  | LogPrintf int bool bool string

text \<open>
  The broker client library is outside the repository.  Its behaviour is a parameter:
  given the history so far and the call, it answers \<open>None\<close> (the call succeeded,
  \<open>err == nil\<close>) or \<open>Some e\<close>.  The helpers \<open>queueName\<close> and \<open>channelName\<close> and the
  serializer's \<open>ContentType\<close> method are defined in files of the repository that are not
  part of the sources at hand; they are parameters too (\<open>channelName\<close> reads the host
  name and random bytes, hence the history argument).
\<close>

record env =
  broker :: "event list \<Rightarrow> event \<Rightarrow> error option"
  queueName :: "string \<Rightarrow> string"
  channelName :: "event list \<Rightarrow> error + string"
  ContentType :: "Serializer \<Rightarrow> string"

section \<open>New\<close>

text \<open>Lines 44--68: the defaults, field by field, in the source's order.\<close>

definition set_defaults :: "Config \<Rightarrow> Config" where
  "set_defaults c0 =
     (let c1 = (if Addr c0 = [] then c0\<lparr>Addr := ''localhost''\<rparr> else c0);
          c2 = (if Port c1 = 0
                then (if EnableTLS c1 then c1\<lparr>Port := 5671\<rparr> else c1\<lparr>Port := 5672\<rparr>)
                else c1);
          c3 = (if Vhost c2 = [] then c2\<lparr>Vhost := ''/''\<rparr> else c2);
          c4 = (if Username c3 = [] then c3\<lparr>Username := ''guest''\<rparr> else c3);
          c5 = (if Password c4 = [] then c4\<lparr>Password := ''guest''\<rparr> else c4);
          c6 = (if Exchange c5 = [] then c5\<lparr>Exchange := ''relay''\<rparr> else c5);
          c7 = (if Serializer c6 = None then c6\<lparr>Serializer := Some GOBSerializer\<rparr> else c6)
      in c7)"

text \<open>\<open>New\<close> returns the relay, the error (always \<open>nil\<close>) and the history extended by the
  \<open>runtime.SetFinalizer\<close> call.  The fresh relay has an unlocked mutex and no connection.\<close>

definition New :: "Config \<Rightarrow> event list \<Rightarrow> (Relay \<times> error option) \<times> event list" where
  "New c w =
     (let c' = set_defaults c;
          r = \<lparr>mutex = False, conf = c', pubConn = None, consConn = None\<rparr>
      in ((r, None), w @ [SetFinalizer (RelayObj c')]))"

section \<open>getConn\<close>

definition dial_uri :: "Config \<Rightarrow> URI" where
  "dial_uri c =
     (let uri = \<lparr>uri_Scheme = [], uri_Host = Addr c, uri_Port = Port c,
                 uri_Username = Username c, uri_Password = Password c,
                 uri_Vhost = Vhost c\<rparr>
      in if EnableTLS c then uri\<lparr>uri_Scheme := ''amqps''\<rparr>
         else uri\<lparr>uri_Scheme := ''amqp''\<rparr>)"

text \<open>\<open>amqp.Dial(uri.String())\<close>: the library renders the URI and dials it; the call is
  recorded with the struct it was rendered from.\<close>

definition getConn :: "env \<Rightarrow> Relay \<Rightarrow> event list \<Rightarrow> (error + conn) \<times> event list" where
  "getConn E r w =
     (let uri = dial_uri (conf r)
      in case broker E w (Dial uri) of
           Some e \<Rightarrow> (Inl e, w @ [Dial uri])
         | None \<Rightarrow> (Inr (length w), w @ [Dial uri]))"

section \<open>watchConn\<close>

text \<open>
  What one receive \<open>err, ok := <-errCh\<close> yields: an error value, or \<open>ok = false\<close> because
  the stream was closed.  The argument list of \<open>watch_loop\<close> is what the stream delivers, in
  order; when it is used up the goroutine is blocked in the receive.  The result is
  \<open>True\<close> when the \<open>for\<close> loop was left by a \<open>break\<close>.
\<close>

datatype notif = Err amqp_Error | Closed

fun watch_loop :: "notif list \<Rightarrow> event list \<Rightarrow> bool \<times> event list" where
  "watch_loop [] w = (False, w)"
| "watch_loop (Closed # ns) w = (True, w)"
| "watch_loop (Err e # ns) w =
     (let w1 = w @ [LogPrintf (err_Code e) (err_Server e) (err_Recover e) (err_Reason e)]
      in if \<not> err_Recover e then (True, w1) else watch_loop ns w1)"

definition Lock :: "Relay \<Rightarrow> Relay option" where
  "Lock r = (if mutex r then None else Some (r\<lparr>mutex := True\<rparr>))"

definition Unlock :: "Relay \<Rightarrow> Relay" where
  "Unlock r = r\<lparr>mutex := False\<rparr>"

text \<open>Where the goroutine stands after the stream delivered the given notifications:
  still in the receive, waiting for the mutex, or returned.\<close>

datatype watch_status = Receiving | LockWait | Returned

definition watchConn ::
  "conn_ref \<Rightarrow> notif list \<Rightarrow> Relay \<Rightarrow> event list \<Rightarrow> watch_status \<times> Relay \<times> event list" where
  "watchConn cref errs r w =
     (case watch_loop errs w of
        (False, w1) \<Rightarrow> (Receiving, r, w1)
      | (True, w1) \<Rightarrow>
          (case Lock r of
             None \<Rightarrow> (LockWait, r, w1)
           | Some r1 \<Rightarrow> (Returned, Unlock (assign cref None r1), w1)))"

section \<open>getChan\<close>

definition squote :: string where
  "squote = [CHR 0x27]"

text \<open>Lines 138--152, with \<open>isNew\<close> and the connection \<open>*conn\<close> as arguments.\<close>

definition open_chan ::
  "env \<Rightarrow> bool \<Rightarrow> conn \<Rightarrow> Relay \<Rightarrow> event list \<Rightarrow> (error + chan) \<times> Relay \<times> event list" where
  "open_chan E isNew c r w =
     (case broker E w (OpenChannel c) of
        Some err \<Rightarrow> (Inl err, r, w @ [OpenChannel c])
      | None \<Rightarrow>
          (let ch = length w; w1 = w @ [OpenChannel c]
           in if isNew
              then (let ed = ExchangeDeclare ch (Exchange (conf r)) ''direct'' True False False False
                    in case broker E w1 ed of
                         Some err \<Rightarrow>
                           (Inl (Errorf (''Failed to declare exchange '' @ squote @ Exchange (conf r) @ squote
                                         @ ''! Got: '' @ error_string err)), r, w1 @ [ed])
                       | None \<Rightarrow> (Inr ch, r, w1 @ [ed]))
              else (Inr ch, r, w1)))"

text \<open>The body of \<open>getChan\<close> between \<open>r.Lock()\<close> and the deferred \<open>r.Unlock()\<close>.\<close>

definition getChan_locked ::
  "env \<Rightarrow> conn_ref \<Rightarrow> Relay \<Rightarrow> event list \<Rightarrow> (error + chan) \<times> Relay \<times> event list" where
  "getChan_locked E cref r w =
     (case deref cref r of
        None \<Rightarrow>
          (case getConn E r w of
             (Inl err, w1) \<Rightarrow> (Inl err, r, w1)
           | (Inr newConn, w1) \<Rightarrow>
               open_chan E True newConn (assign cref (Some newConn) r)
                 (w1 @ [NotifyClose newConn, GoWatchConn cref newConn]))
      | Some c \<Rightarrow> open_chan E False c r w)"

text \<open>\<open>None\<close>: the caller is blocked in \<open>r.Lock()\<close>.\<close>

definition getChan ::
  "env \<Rightarrow> conn_ref \<Rightarrow> Relay \<Rightarrow> event list \<Rightarrow> ((error + chan) \<times> Relay \<times> event list) option" where
  "getChan E cref r w =
     (case Lock r of
        None \<Rightarrow> None
      | Some r0 \<Rightarrow>
          (case getChan_locked E cref r0 w of
             (res, r1, w1) \<Rightarrow> Some (res, Unlock r1, w1)))"

section \<open>declareQueue\<close>

definition declareQueue ::
  "env \<Rightarrow> Relay \<Rightarrow> chan \<Rightarrow> string \<Rightarrow> event list \<Rightarrow> error option \<times> event list" where
  "declareQueue E r ch name w =
     (let qd = QueueDeclare ch name True False False False
      in case broker E w qd of
           Some err \<Rightarrow>
             (Some (Errorf (''Failed to declare queue '' @ squote @ name @ squote @ ''! Got: ''
                            @ error_string err)), w @ [qd])
         | None \<Rightarrow>
             (let w1 = w @ [qd]; qb = QueueBind ch name name (Exchange (conf r)) False
              in case broker E w1 qb of
                   Some err \<Rightarrow>
                     (Some (Errorf (''Failed to bind queue '' @ squote @ name @ squote @ ''! Got: ''
                                    @ error_string err)), w1 @ [qb])
                 | None \<Rightarrow> (None, w1 @ [qb])))"

section \<open>Relay.Close\<close>

text \<open>One of the two \<open>if ... != nil\<close> blocks of \<open>Close\<close>, for the field \<open>cref\<close>.\<close>

definition close_conn ::
  "env \<Rightarrow> conn_ref \<Rightarrow> error list \<times> Relay \<times> event list \<Rightarrow> error list \<times> Relay \<times> event list" where
  "close_conn E cref s =
     (case s of (errors, r, w) \<Rightarrow>
        (case deref cref r of
           None \<Rightarrow> (errors, r, w)
         | Some c \<Rightarrow>
             (case broker E w (ConnClose c) of
                Some err \<Rightarrow> (errors @ [err], assign cref None r, w @ [ConnClose c])
              | None \<Rightarrow> (errors, assign cref None r, w @ [ConnClose c]))))"

definition close_result :: "error list \<Rightarrow> error option" where
  "close_result errors =
     (if length errors = 1 then Some (errors ! 0)
      else if length errors = 2
      then Some (Errorf (''Failed to Close! Got '' @ error_string (errors ! 0) @ '' and ''
                         @ error_string (errors ! 1)))
      else None)"

definition Relay_Close ::
  "env \<Rightarrow> Relay \<Rightarrow> event list \<Rightarrow> (error option \<times> Relay \<times> event list) option" where
  "Relay_Close E r w =
     (case Lock r of
        None \<Rightarrow> None
      | Some r0 \<Rightarrow>
          (case close_conn E ConsConnRef (close_conn E PubConnRef ([], r0, w)) of
             (errors, r2, w2) \<Rightarrow> Some (close_result errors, Unlock r2, w2)))"

section \<open>Relay.Consumer and Relay.Publisher\<close>

definition set_qos :: "env \<Rightarrow> Relay \<Rightarrow> chan \<Rightarrow> event list \<Rightarrow> error option \<times> event list" where
  "set_qos E r ch w =
     (if PrefetchCount (conf r) > 0
      then (let ev = Qos ch (PrefetchCount (conf r)) 0 False
            in case broker E w ev of
                 Some err \<Rightarrow>
                   (Some (Errorf (''Failed to set Qos prefetch! Got: '' @ error_string err)),
                    w @ [ev])
               | None \<Rightarrow> (None, w @ [ev]))
      else (None, w))"

definition Relay_Consumer ::
  "env \<Rightarrow> string \<Rightarrow> Relay \<Rightarrow> event list \<Rightarrow> ((error + Consumer) \<times> Relay \<times> event list) option" where
  "Relay_Consumer E queue r w =
     (case getChan E ConsConnRef r w of
        None \<Rightarrow> None
      | Some (Inl err, r1, w1) \<Rightarrow> Some (Inl err, r1, w1)
      | Some (Inr ch, r1, w1) \<Rightarrow>
          (let name = queueName E queue
           in case declareQueue E r1 ch name w1 of
                (Some err, w2) \<Rightarrow> Some (Inl err, r1, w2)
              | (None, w2) \<Rightarrow>
                  (case set_qos E r1 ch w2 of
                     (Some err, w3) \<Rightarrow> Some (Inl err, r1, w3)
                   | (None, w3) \<Rightarrow>
                       (case channelName E w3 of
                          Inl err \<Rightarrow> Some (Inl err, r1, w3)
                        | Inr cn \<Rightarrow>
                            (let ev = Consume ch name cn False False False False
                             in case broker E w3 ev of
                                  Some err \<Rightarrow>
                                    Some (Inl (Errorf (''Failed to start consuming messages! Got: ''
                                                       @ error_string err)), r1, w3 @ [ev])
                                | None \<Rightarrow>
                                    (let cons = \<lparr>cons_conf = conf r1, consName = cn,
                                                 cons_queue = name, cons_channel = Some ch,
                                                 readCh = length w3, lastMsg = 0,
                                                 needAck = False\<rparr>
                                     in Some (Inr cons, r1,
                                              w3 @ [ev, SetFinalizer (ConsumerObj cons)])))))))"

text \<open>Lines 271--281: confirmations, when they are not disabled.\<close>

definition attach_confirm ::
  "env \<Rightarrow> Relay \<Rightarrow> chan \<Rightarrow> Publisher \<Rightarrow> event list \<Rightarrow> (error + Publisher) \<times> event list" where
  "attach_confirm E r ch pub w =
     (if \<not> DisablePublishConfirm (conf r)
      then (let w1 = w @ [ChanNotifyClose ch, ChanNotifyConfirm ch]; ev = Confirm ch False
            in case broker E w1 ev of
                 Some err \<Rightarrow>
                   (Inl (Errorf (''Failed to put publisher in confirm mode! Got: ''
                                 @ error_string err)), w1 @ [ev])
               | None \<Rightarrow>
                   (Inr (pub\<lparr>ackCh := Some (AckChan (Suc (length w))),
                             nackCh := Some (NackChan (Suc (length w))),
                             errCh := Some (ErrChan (length w))\<rparr>), w1 @ [ev]))
      else (Inr pub, w))"

definition Relay_Publisher ::
  "env \<Rightarrow> string \<Rightarrow> Relay \<Rightarrow> event list \<Rightarrow> ((error + Publisher) \<times> Relay \<times> event list) option" where
  "Relay_Publisher E queue r w =
     (case getChan E PubConnRef r w of
        None \<Rightarrow> None
      | Some (Inl err, r1, w1) \<Rightarrow> Some (Inl err, r1, w1)
      | Some (Inr ch, r1, w1) \<Rightarrow>
          (let name = queueName E queue
           in case declareQueue E r1 ch name w1 of
                (Some err, w2) \<Rightarrow> Some (Inl err, r1, w2)
              | (None, w2) \<Rightarrow>
                  (case Serializer (conf r1) of
                     None \<Rightarrow> Some (Inl (Panic ''nil pointer dereference''), r1, w2)
                   | Some ser \<Rightarrow>
                       (let ctype = ContentType E ser;
                            m = (if DisablePersistence (conf r1) then Transient else Persistent);
                            pub = \<lparr>pub_conf = conf r1, pub_queue = name, pub_channel = Some ch,
                                   contentType = ctype, mode = m, ackCh = None, nackCh = None,
                                   errCh = None\<rparr>
                        in case attach_confirm E r1 ch pub w2 of
                             (Inl err, w3) \<Rightarrow> Some (Inl err, r1, w3)
                           | (Inr pub1, w3) \<Rightarrow>
                               Some (Inr pub1, r1, w3 @ [SetFinalizer (PublisherObj pub1)])))))"

section \<open>The broker's queues, for the consumer and publisher operations\<close>

text \<open>
  Modelled from the spec: the broker side of \<open>channel.consume\<close>, \<open>channel.ack(tag, multiple)\<close>,
  \<open>channel.nack(tag, multiple, requeue)\<close>, \<open>channel.publish\<close> and closing a channel
  (sections 6 and 8 and the glossary; the broker is an external service).  A queue holds
  message bodies, oldest first.  Taking a delivery off a consumer's stream hands the oldest
  body to that channel under the channel's next delivery tag and keeps it as outstanding.
  An acknowledgment forgets the outstanding deliveries it covers (the one with the tag, or
  with \<open>multiple\<close> every one of the channel up to the tag); a rejection with \<open>requeue\<close>
  puts them back at the head of their queue in their original order.
\<close>

record delivery =
  d_chan :: chan
  d_tag :: nat
  d_queue :: string
  d_body :: string

datatype chan_call =
    Ack chan nat bool
  | Nack chan nat bool bool
  | ChanClose chan
  | Publish chan string string delivery_mode string string

record broker_state =
  ready :: "string \<Rightarrow> string list"
  unacked :: "delivery list"
  last_tag :: "chan \<Rightarrow> nat"
  calls :: "chan_call list"

definition covered :: "chan \<Rightarrow> nat \<Rightarrow> bool \<Rightarrow> delivery \<Rightarrow> bool" where
  "covered ch t multiple d =
     (d_chan d = ch \<and> (if multiple then d_tag d \<le> t else d_tag d = t))"

definition broker_deliver :: "chan \<Rightarrow> string \<Rightarrow> broker_state \<Rightarrow> (delivery \<times> broker_state) option" where
  "broker_deliver ch qn b =
     (case ready b qn of
        [] \<Rightarrow> None
      | m # ms \<Rightarrow>
          (let d = \<lparr>d_chan = ch, d_tag = Suc (last_tag b ch), d_queue = qn, d_body = m\<rparr>
           in Some (d, b\<lparr>ready := (ready b)(qn := ms),
                         unacked := unacked b @ [d],
                         last_tag := (last_tag b)(ch := Suc (last_tag b ch))\<rparr>)))"

definition broker_ack :: "chan \<Rightarrow> nat \<Rightarrow> bool \<Rightarrow> broker_state \<Rightarrow> broker_state" where
  "broker_ack ch t multiple b =
     b\<lparr>unacked := filter (\<lambda>d. \<not> covered ch t multiple d) (unacked b),
       calls := calls b @ [Ack ch t multiple]\<rparr>"

definition broker_nack :: "chan \<Rightarrow> nat \<Rightarrow> bool \<Rightarrow> bool \<Rightarrow> broker_state \<Rightarrow> broker_state" where
  "broker_nack ch t multiple requeue b =
     (let back = filter (covered ch t multiple) (unacked b)
      in b\<lparr>ready := (if requeue
                      then (\<lambda>qn. map d_body (filter (\<lambda>d. d_queue d = qn) back) @ ready b qn)
                      else ready b),
           unacked := filter (\<lambda>d. \<not> covered ch t multiple d) (unacked b),
           calls := calls b @ [Nack ch t multiple requeue]\<rparr>)"

definition broker_close :: "chan \<Rightarrow> broker_state \<Rightarrow> broker_state" where
  "broker_close ch b = b\<lparr>calls := calls b @ [ChanClose ch]\<rparr>"

text \<open>A publish to the shared exchange with the queue name as routing key reaches the queue
  bound under that key, which is the queue of that name.\<close>

definition broker_publish ::
  "chan \<Rightarrow> string \<Rightarrow> string \<Rightarrow> delivery_mode \<Rightarrow> string \<Rightarrow> string \<Rightarrow> broker_state \<Rightarrow> broker_state" where
  "broker_publish ch exch key m body ctype b =
     b\<lparr>ready := (ready b)(key := ready b key @ [body]),
       calls := calls b @ [Publish ch exch key m body ctype]\<rparr>"

text \<open>Modelled from the spec: the serializer collaborator of section 6,
  \<open>serialize(value) \<rightarrow> bytes\<close> and \<open>deserialize(bytes, outRef) \<rightarrow> error\<close>; the serializer
  implementations are not part of the sources at hand.\<close>

record 'v codec =
  serialize :: "'v \<Rightarrow> string"
  deserialize :: "string \<Rightarrow> error + 'v"

section \<open>Consumer operations\<close>

text \<open>
  Modelled from the spec: \<open>Consumer.Nack\<close> (section 4.2, \<open>nack()\<close>); the methods of
  \<open>Consumer\<close> are in a file of the repository that is not part of the sources at hand.
  Rejects and requeues the pending delivery, or with multi-ack every delivery up to the
  highest pending tag, and clears the pending state; the closed-channel sentinel after
  close.  The pending state is the pair of the tag and the flag that \<open>Relay.Consumer\<close>
  initialises to \<open>0\<close> and \<open>false\<close>.
\<close>

definition Consumer_Nack :: "Consumer \<Rightarrow> broker_state \<Rightarrow> error option \<times> Consumer \<times> broker_state" where
  "Consumer_Nack c b =
     (case cons_channel c of
        None \<Rightarrow> (Some ChannelClosed, c, b)
      | Some ch \<Rightarrow>
          if \<not> needAck c then (Some NothingPendingError, c, b)
          else (None, c\<lparr>needAck := False\<rparr>,
                broker_nack ch (lastMsg c) (EnableMultiAck (cons_conf c)) True b))"

text \<open>
  Modelled from the spec: \<open>Consumer.Ack\<close> (section 4.2, \<open>ack()\<close>); missing as above.
  Acknowledges the pending delivery, or with multi-ack every delivery up to the highest
  pending tag, and clears the pending state; the closed-channel sentinel after close.
\<close>

definition Consumer_Ack :: "Consumer \<Rightarrow> broker_state \<Rightarrow> error option \<times> Consumer \<times> broker_state" where
  "Consumer_Ack c b =
     (case cons_channel c of
        None \<Rightarrow> (Some ChannelClosed, c, b)
      | Some ch \<Rightarrow>
          if \<not> needAck c then (Some NothingPendingError, c, b)
          else (None, c\<lparr>needAck := False\<rparr>,
                broker_ack ch (lastMsg c) (EnableMultiAck (cons_conf c)) b))"

text \<open>
  Modelled from the spec: \<open>Consumer.Consume\<close> and its timeout variant (section 4.2,
  \<open>consume(out, timeout?)\<close>); missing as above.  \<open>timeout\<close> tells whether the call is
  bounded; \<open>out\<close> is the value the caller's variable holds, returned as the call leaves
  it.  The result \<open>None\<close> is a call that blocks for ever: no delivery and no timeout.
  The text of the ack-required error is the one \<open>TestDoubleConsume\<close> compares with.
  When deserialization fails the delivery has been taken and stays pending.
\<close>

definition Consumer_Consume ::
  "'v codec \<Rightarrow> bool \<Rightarrow> Consumer \<Rightarrow> 'v \<Rightarrow> broker_state
     \<Rightarrow> (error option \<times> Consumer \<times> 'v \<times> broker_state) option" where
  "Consumer_Consume cd timeout c out b =
     (case cons_channel c of
        None \<Rightarrow> Some (Some ChannelClosed, c, out, b)
      | Some ch \<Rightarrow>
          if needAck c \<and> \<not> EnableMultiAck (cons_conf c)
          then Some (Some (Errorf ''Ack required before consume!''), c, out, b)
          else (case broker_deliver ch (cons_queue c) b of
                  None \<Rightarrow> if timeout then Some (Some TimeoutError, c, out, b) else None
                | Some (d, b1) \<Rightarrow>
                    (let c1 = c\<lparr>lastMsg := d_tag d, needAck := True\<rparr>
                     in case deserialize cd (d_body d) of
                          Inl err \<Rightarrow> Some (Some err, c1, out, b1)
                        | Inr v \<Rightarrow> Some (None, c1, v, b1))))"

text \<open>
  Modelled from the spec: \<open>Consumer.ConsumeAck\<close> (section 4.2, \<open>consumeAndAck\<close>: consume,
  then immediately ack); missing as above.
\<close>

definition Consumer_ConsumeAck ::
  "'v codec \<Rightarrow> Consumer \<Rightarrow> 'v \<Rightarrow> broker_state
     \<Rightarrow> (error option \<times> Consumer \<times> 'v \<times> broker_state) option" where
  "Consumer_ConsumeAck cd c out b =
     (case Consumer_Consume cd False c out b of
        None \<Rightarrow> None
      | Some (Some err, c1, out1, b1) \<Rightarrow> Some (Some err, c1, out1, b1)
      | Some (None, c1, out1, b1) \<Rightarrow>
          (case Consumer_Ack c1 b1 of (res, c2, b2) \<Rightarrow> Some (res, c2, out1, b2)))"

text \<open>
  Modelled from the spec: \<open>Consumer.Close\<close> (section 4.2, \<open>close()\<close>); missing as above.
  Idempotent; a delivery pending at close time is nacked (requeued) before the channel is
  closed; afterwards the consumer has no channel.
\<close>

definition Consumer_Close :: "Consumer \<Rightarrow> broker_state \<Rightarrow> error option \<times> Consumer \<times> broker_state" where
  "Consumer_Close c b =
     (case cons_channel c of
        None \<Rightarrow> (None, c, b)
      | Some ch \<Rightarrow>
          (if needAck c
           then (case Consumer_Nack c b of
                   (Some err, c1, b1) \<Rightarrow> (Some err, c1\<lparr>cons_channel := None\<rparr>, b1)
                 | (None, c1, b1) \<Rightarrow> (None, c1\<lparr>cons_channel := None\<rparr>, broker_close ch b1))
           else (None, c\<lparr>cons_channel := None\<rparr>, broker_close ch b)))"

section \<open>Publisher operations\<close>

text \<open>What arrives first on the publisher's three notification channels after a publish.\<close>

datatype confirmation = ConfirmAck | ConfirmNack | ConfirmClosed

text \<open>
  Modelled from the spec: \<open>Publisher.Publish\<close> (section 4.3, \<open>publish(value)\<close>); the methods
  of \<open>Publisher\<close> are in a file of the repository that is not part of the sources at hand.
  \<open>arrived\<close> is the notification that arrives, \<open>None\<close> when none ever does; the publisher
  waits for one exactly when \<open>Relay.Publisher\<close> attached the notification channels.
\<close>

definition Publisher_Publish ::
  "'v codec \<Rightarrow> confirmation option \<Rightarrow> 'v \<Rightarrow> Publisher \<Rightarrow> broker_state
     \<Rightarrow> (error option \<times> Publisher \<times> broker_state) option" where
  "Publisher_Publish cd arrived v p b =
     (case pub_channel p of
        None \<Rightarrow> Some (Some ChannelClosed, p, b)
      | Some ch \<Rightarrow>
          (let b1 = broker_publish ch (Exchange (pub_conf p)) (pub_queue p) (mode p)
                      (serialize cd v) (contentType p) b
           in if ackCh p \<noteq> None
              then (case arrived of
                      None \<Rightarrow> None
                    | Some ConfirmAck \<Rightarrow> Some (None, p, b1)
                    | Some ConfirmNack \<Rightarrow> Some (Some DeliveryFailedError, p, b1)
                    | Some ConfirmClosed \<Rightarrow> Some (Some ChannelClosed, p, b1))
              else Some (None, p, b1)))"

text \<open>
  Modelled from the spec: \<open>Publisher.Close\<close> (section 4.3, \<open>close()\<close>); missing as above.
  Idempotent; closes the channel.
\<close>

definition Publisher_Close :: "Publisher \<Rightarrow> broker_state \<Rightarrow> error option \<times> Publisher \<times> broker_state" where
  "Publisher_Close p b =
     (case pub_channel p of
        None \<Rightarrow> (None, p, b)
      | Some ch \<Rightarrow> (None, p\<lparr>pub_channel := None\<rparr>, broker_close ch b))"

section \<open>Example inputs\<close>

text \<open>\<open>Config{}\<close>, every field at its zero value.\<close>

definition zero_conf :: Config where
  "zero_conf = \<lparr>Addr = [], Port = 0, Vhost = [], Username = [], Password = [],
                 EnableTLS = False, PrefetchCount = 0, EnableMultiAck = False,
                 DisablePublishConfirm = False, DisablePersistence = False,
                 Exchange = [], Serializer = None\<rparr>"

text \<open>The configuration of \<open>TestNoHost\<close>.\<close>

definition TestNoHost_conf :: Config where
  "TestNoHost_conf = zero_conf\<lparr>Addr := ''127.0.0.1'', Port := 1\<rparr>"

definition test_env :: "(event list \<Rightarrow> event \<Rightarrow> error option) \<Rightarrow> env" where
  "test_env B = \<lparr>broker = B, queueName = (\<lambda>s. ''relay.'' @ s),
                  channelName = (\<lambda>w. Inr ''host.1''), ContentType = (\<lambda>s. ''binary/gob'')\<rparr>"

text \<open>Brokers: one that accepts every call, one with nobody listening, one that rejects
  every exchange declaration, one that fails every connection close.\<close>

definition ok_broker :: "event list \<Rightarrow> event \<Rightarrow> error option" where
  "ok_broker w ev = None"

definition refusing_broker :: "event list \<Rightarrow> event \<Rightarrow> error option" where
  "refusing_broker w ev =
     (case ev of Dial u \<Rightarrow> Some (AmqpErr ''connection refused'') | _ \<Rightarrow> None)"

definition no_declare_broker :: "event list \<Rightarrow> event \<Rightarrow> error option" where
  "no_declare_broker w ev =
     (case ev of ExchangeDeclare ch n k d a i nw \<Rightarrow> Some (AmqpErr ''access refused'')
               | _ \<Rightarrow> None)"

definition no_close_broker :: "event list \<Rightarrow> event \<Rightarrow> error option" where
  "no_close_broker w ev =
     (case ev of ConnClose c \<Rightarrow> Some (AmqpErr ''close failed'') | _ \<Rightarrow> None)"

text \<open>A relay with both connections cached.\<close>

definition two_conn_relay :: Relay where
  "two_conn_relay =
     \<lparr>mutex = False, conf = set_defaults zero_conf, pubConn = Some 1, consConn = Some 5\<rparr>"

text \<open>Observing a history: is this event an exchange declaration?\<close>

fun is_ExchangeDeclare :: "event \<Rightarrow> bool" where
  "is_ExchangeDeclare (ExchangeDeclare ch name kind durable autoDelete internal noWait) = True"
| "is_ExchangeDeclare ev = False"

text \<open>\<open>n\<close> calls of \<open>getChan\<close> for one role, one after the other, whatever each returns.\<close>

fun getChan_calls ::
  "env \<Rightarrow> conn_ref \<Rightarrow> nat \<Rightarrow> Relay \<Rightarrow> event list \<Rightarrow> (Relay \<times> event list) option" where
  "getChan_calls E cref 0 r w = Some (r, w)"
| "getChan_calls E cref (Suc n) r w =
     (case getChan E cref r w of
        None \<Rightarrow> None
      | Some (res, r1, w1) \<Rightarrow> getChan_calls E cref n r1 w1)"

text \<open>The relay that \<open>New\<close> builds from \<open>Config{}\<close>.\<close>

definition fresh_relay :: Relay where
  "fresh_relay = fst (fst (New zero_conf []))"

text \<open>A notification that ends the watcher's loop: the stream was closed, or the broker
  reported an error that it did not mark recoverable.\<close>

fun fatal :: "notif \<Rightarrow> bool" where
  "fatal Closed = True"
| "fatal (Err e) = (\<not> err_Recover e)"

text \<open>Two broker errors, one recoverable and one not.\<close>

definition soft_error :: amqp_Error where
  "soft_error = \<lparr>err_Code = 311, err_Reason = ''content too large'', err_Server = True,
                  err_Recover = True\<rparr>"

definition hard_error :: amqp_Error where
  "hard_error = \<lparr>err_Code = 320, err_Reason = ''connection forced'', err_Server = True,
                  err_Recover = False\<rparr>"

text \<open>Observing a history: is this event the registration of a finalizer?\<close>

fun is_SetFinalizer :: "event \<Rightarrow> bool" where
  "is_SetFinalizer (SetFinalizer obj) = True"
| "is_SetFinalizer ev = False"

section \<open>Basic facts\<close>

lemma mutex_assign [simp]: "mutex (assign cref v r) = mutex r"
  by (cases cref) simp_all

lemma conf_assign [simp]: "conf (assign cref v r) = conf r"
  by (cases cref) simp_all

lemma deref_assign_same [simp]: "deref cref (assign cref v r) = v"
  by (cases cref) simp_all

lemma deref_mutex [simp]: "deref cref (r\<lparr>mutex := b\<rparr>) = deref cref r"
  by (cases cref) simp_all

lemma set_defaults_Addr:
  "Addr (set_defaults c) = (if Addr c = [] then ''localhost'' else Addr c)"
  by (simp add: set_defaults_def Let_def)

lemma set_defaults_Port:
  "Port (set_defaults c) = (if Port c = 0 then (if EnableTLS c then 5671 else 5672) else Port c)"
  by (simp add: set_defaults_def Let_def)

lemma set_defaults_Vhost:
  "Vhost (set_defaults c) = (if Vhost c = [] then ''/'' else Vhost c)"
  by (simp add: set_defaults_def Let_def)

lemma set_defaults_Username:
  "Username (set_defaults c) = (if Username c = [] then ''guest'' else Username c)"
  by (simp add: set_defaults_def Let_def)

lemma set_defaults_Password:
  "Password (set_defaults c) = (if Password c = [] then ''guest'' else Password c)"
  by (simp add: set_defaults_def Let_def)

lemma set_defaults_Exchange:
  "Exchange (set_defaults c) = (if Exchange c = [] then ''relay'' else Exchange c)"
  by (simp add: set_defaults_def Let_def)

lemma set_defaults_Serializer:
  "Serializer (set_defaults c) = (if Serializer c = None then Some GOBSerializer else Serializer c)"
  by (simp add: set_defaults_def Let_def)

lemma set_defaults_flags:
  "EnableTLS (set_defaults c) = EnableTLS c"
  "PrefetchCount (set_defaults c) = PrefetchCount c"
  "EnableMultiAck (set_defaults c) = EnableMultiAck c"
  "DisablePublishConfirm (set_defaults c) = DisablePublishConfirm c"
  "DisablePersistence (set_defaults c) = DisablePersistence c"
  by (simp_all add: set_defaults_def Let_def)

lemma New_eq:
  "New c w = ((\<lparr>mutex = False, conf = set_defaults c, pubConn = None, consConn = None\<rparr>, None),
              w @ [SetFinalizer (RelayObj (set_defaults c))])"
  by (simp add: New_def Let_def)

lemma getConn_events:
  "snd (getConn E r w) =
      w @ [Dial \<lparr>uri_Scheme = (if EnableTLS (conf r) then ''amqps'' else ''amqp''),
                 uri_Host = Addr (conf r), uri_Port = Port (conf r),
                 uri_Username = Username (conf r), uri_Password = Password (conf r),
                 uri_Vhost = Vhost (conf r)\<rparr>]"
  by (simp add: getConn_def dial_uri_def Let_def split: option.splits)

lemma getChan_dial_fails:
  assumes "\<not> mutex r" "deref cref r = None"
    and "broker E w (Dial (dial_uri (conf r))) = Some e"
  shows "getChan E cref r w = Some (Inl e, r, w @ [Dial (dial_uri (conf r))])"
  using assms by (simp add: getChan_def Lock_def Unlock_def getChan_locked_def getConn_def)

section \<open>Defaults and the dial URI\<close>

text \<open>
  Claim C5.  After \<open>New\<close> returns, every configuration field that was unset (at its zero
  value) holds its default: address \<open>localhost\<close>, vhost \<open>/\<close>, user name and password
  \<open>guest\<close>, exchange \<open>relay\<close>, the GOB serializer, and port 5671 when TLS is enabled,
  otherwise 5672; a field that was set keeps its value.  The URI that \<open>getConn\<close> dials
  has scheme \<open>amqps\<close> when the TLS flag is set and \<open>amqp\<close> otherwise, and the configured
  host, port, vhost and credentials.
\<close>

theorem New_defaults_and_dial_uri:
  "(let c' = conf (fst (fst (New c w))) in
      Addr c' = (if Addr c = [] then ''localhost'' else Addr c) \<and>
      Port c' = (if Port c = 0 then (if EnableTLS c then 5671 else 5672) else Port c) \<and>
      Vhost c' = (if Vhost c = [] then ''/'' else Vhost c) \<and>
      Username c' = (if Username c = [] then ''guest'' else Username c) \<and>
      Password c' = (if Password c = [] then ''guest'' else Password c) \<and>
      Exchange c' = (if Exchange c = [] then ''relay'' else Exchange c) \<and>
      Serializer c' = (if Serializer c = None then Some GOBSerializer else Serializer c) \<and>
      EnableTLS c' = EnableTLS c \<and> PrefetchCount c' = PrefetchCount c \<and>
      EnableMultiAck c' = EnableMultiAck c \<and>
      DisablePublishConfirm c' = DisablePublishConfirm c \<and>
      DisablePersistence c' = DisablePersistence c) \<and>
   snd (getConn E r w2) =
      w2 @ [Dial \<lparr>uri_Scheme = (if EnableTLS (conf r) then ''amqps'' else ''amqp''),
                  uri_Host = Addr (conf r), uri_Port = Port (conf r),
                  uri_Username = Username (conf r), uri_Password = Password (conf r),
                  uri_Vhost = Vhost (conf r)\<rparr>]"
  unfolding Let_def New_eq fst_conv Relay.select_convs
  by (simp only: set_defaults_Addr set_defaults_Port set_defaults_Vhost set_defaults_Username
      set_defaults_Password set_defaults_Exchange set_defaults_Serializer set_defaults_flags
      getConn_events simp_thms)

theorem New_defaults_and_dial_uri_witness:
  "conf (fst (fst (New (zero_conf\<lparr>EnableTLS := True\<rparr>) []))) =
     \<lparr>Addr = ''localhost'', Port = 5671, Vhost = ''/'', Username = ''guest'',
      Password = ''guest'', EnableTLS = True, PrefetchCount = 0, EnableMultiAck = False,
      DisablePublishConfirm = False, DisablePersistence = False, Exchange = ''relay'',
      Serializer = Some GOBSerializer\<rparr> \<and>
   snd (getConn (test_env ok_broker) (fst (fst (New (zero_conf\<lparr>EnableTLS := True\<rparr>) []))) []) =
     [Dial \<lparr>uri_Scheme = ''amqps'', uri_Host = ''localhost'', uri_Port = 5671,
            uri_Username = ''guest'', uri_Password = ''guest'', uri_Vhost = ''/''\<rparr>]"
  using New_defaults_and_dial_uri [of "zero_conf\<lparr>EnableTLS := True\<rparr>" "[]" "test_env ok_broker"
      "fst (fst (New (zero_conf\<lparr>EnableTLS := True\<rparr>) []))" "[]"]
  by (simp add: zero_conf_def New_eq Let_def)

section \<open>Construction never dials\<close>

text \<open>
  Claim C1.  \<open>New\<close> returns no error, for every configuration, and makes no call to the
  broker: its only effect is the finalizer registration.  A dial failure surfaces later:
  when the broker answers the dial of the relay's URI with an error \<open>e\<close>, the first call
  of \<open>Consumer(queue)\<close> on the new relay returns exactly \<open>e\<close>, and so does the first call
  of \<open>Publisher(queue)\<close>; the relay is left as it was.
\<close>

theorem New_never_fails_dial_error_deferred:
  "snd (fst (New c w)) = None \<and>
   snd (New c w) = w @ [SetFinalizer (RelayObj (conf (fst (fst (New c w)))))] \<and>
   (\<forall>w1 e queue. broker E w1 (Dial (dial_uri (conf (fst (fst (New c w)))))) = Some e \<longrightarrow>
      Relay_Consumer E queue (fst (fst (New c w))) w1
        = Some (Inl e, fst (fst (New c w)), w1 @ [Dial (dial_uri (conf (fst (fst (New c w)))))]) \<and>
      Relay_Publisher E queue (fst (fst (New c w))) w1
        = Some (Inl e, fst (fst (New c w)), w1 @ [Dial (dial_uri (conf (fst (fst (New c w)))))]))"
proof -
  define r where "r = fst (fst (New c w))"
  have m: "\<not> mutex r" and p: "deref PubConnRef r = None" and c: "deref ConsConnRef r = None"
    by (simp_all add: r_def New_eq)
  have 1: "snd (fst (New c w)) = None" by (simp add: New_eq)
  have 2: "snd (New c w) = w @ [SetFinalizer (RelayObj (conf r))]" by (simp add: r_def New_eq)
  have 3: "Relay_Consumer E queue r w1 = Some (Inl e, r, w1 @ [Dial (dial_uri (conf r))])"
    if "broker E w1 (Dial (dial_uri (conf r))) = Some e" for w1 e queue
    unfolding Relay_Consumer_def getChan_dial_fails[OF m c that] by simp
  have 4: "Relay_Publisher E queue r w1 = Some (Inl e, r, w1 @ [Dial (dial_uri (conf r))])"
    if "broker E w1 (Dial (dial_uri (conf r))) = Some e" for w1 e queue
    unfolding Relay_Publisher_def getChan_dial_fails[OF m p that] by simp
  show ?thesis unfolding r_def[symmetric] using 1 2 3 4 by blast
qed

theorem New_never_fails_dial_error_deferred_witness:
  "snd (fst (New TestNoHost_conf [])) = None \<and>
   broker (test_env refusing_broker) (snd (New TestNoHost_conf []))
     (Dial (dial_uri (conf (fst (fst (New TestNoHost_conf [])))))) = Some (AmqpErr ''connection refused'') \<and>
   fst (the (Relay_Consumer (test_env refusing_broker) ''test'' (fst (fst (New TestNoHost_conf [])))
              (snd (New TestNoHost_conf [])))) = Inl (AmqpErr ''connection refused'') \<and>
   fst (the (Relay_Publisher (test_env refusing_broker) ''test'' (fst (fst (New TestNoHost_conf [])))
              (snd (New TestNoHost_conf [])))) = Inl (AmqpErr ''connection refused'')"
proof -
  have d: "broker (test_env refusing_broker) (snd (New TestNoHost_conf []))
     (Dial (dial_uri (conf (fst (fst (New TestNoHost_conf [])))))) = Some (AmqpErr ''connection refused'')"
    by (simp add: test_env_def refusing_broker_def)
  show ?thesis
    using d New_never_fails_dial_error_deferred [of TestNoHost_conf "[]" "test_env refusing_broker"]
    by simp
qed

section \<open>Relay.Close\<close>

lemma close_conn_None:
  "deref cref r = None \<Longrightarrow> close_conn E cref (errs, r, w) = (errs, r, w)"
  by (simp add: close_conn_def)

lemma close_conn_Some:
  "deref cref r = Some c \<Longrightarrow>
   close_conn E cref (errs, r, w) =
     (errs @ (case broker E w (ConnClose c) of None \<Rightarrow> [] | Some e \<Rightarrow> [e]),
      assign cref None r, w @ [ConnClose c])"
  by (simp add: close_conn_def split: option.splits)

lemma close_result_simps:
  "close_result [] = None"
  "close_result [e] = Some e"
  "close_result [e1, e2] =
     Some (Errorf (''Failed to Close! Got '' @ error_string e1 @ '' and '' @ error_string e2))"
  by (simp_all add: close_result_def)

lemma Relay_Close_idle:
  assumes "\<not> mutex r" "pubConn r = None" "consConn r = None"
  shows "Relay_Close E r w = Some (None, r, w)"
  using assms
  by (simp add: Relay_Close_def Lock_def Unlock_def close_conn_None close_result_simps)

text \<open>
  Claim C2.  \<open>Relay.Close\<close>, called while nobody holds the mutex, returns; it calls
  \<open>Close\<close> on the cached publish-role connection if there is one and then on the cached
  consume-role connection if there is one, once each and nothing else; both cached
  references are cleared; the result is \<open>nil\<close> when no close failed, the error itself
  when one failed, and one combined error when both failed.  Every call of \<open>Close\<close> on
  the relay it leaves returns \<open>nil\<close> and changes nothing.
\<close>

theorem Relay_Close_closes_each_once:
  assumes "\<not> mutex r"
  shows "(let pev = (case pubConn r of None \<Rightarrow> [] | Some p \<Rightarrow> [ConnClose p]);
              cev = (case consConn r of None \<Rightarrow> [] | Some c \<Rightarrow> [ConnClose c]);
              perr = (case pubConn r of None \<Rightarrow> None | Some p \<Rightarrow> broker E w (ConnClose p));
              cerr = (case consConn r of None \<Rightarrow> None
                      | Some c \<Rightarrow> broker E (w @ pev) (ConnClose c));
              r' = r\<lparr>pubConn := None, consConn := None\<rparr>
          in Relay_Close E r w =
               Some (case (perr, cerr) of
                       (None, None) \<Rightarrow> None
                     | (Some e, None) \<Rightarrow> Some e
                     | (None, Some e) \<Rightarrow> Some e
                     | (Some e1, Some e2) \<Rightarrow>
                         Some (Errorf (''Failed to Close! Got '' @ error_string e1 @ '' and ''
                                       @ error_string e2)),
                     r', w @ pev @ cev)
             \<and> (\<forall>E2 w2. Relay_Close E2 r' w2 = Some (None, r', w2)))"
proof -
  have idle: "Relay_Close E2 (r\<lparr>pubConn := None, consConn := None\<rparr>) w2
                = Some (None, r\<lparr>pubConn := None, consConn := None\<rparr>, w2)" for E2 w2
    using assms by (intro Relay_Close_idle) simp_all
  have main: "Relay_Close E r w =
      Some (case (case pubConn r of None \<Rightarrow> None | Some p \<Rightarrow> broker E w (ConnClose p),
                  case consConn r of None \<Rightarrow> None
                  | Some c \<Rightarrow> broker E (w @ (case pubConn r of None \<Rightarrow> [] | Some p \<Rightarrow> [ConnClose p]))
                                (ConnClose c)) of
              (None, None) \<Rightarrow> None
            | (Some e, None) \<Rightarrow> Some e
            | (None, Some e) \<Rightarrow> Some e
            | (Some e1, Some e2) \<Rightarrow>
                Some (Errorf (''Failed to Close! Got '' @ error_string e1 @ '' and ''
                              @ error_string e2)),
            r\<lparr>pubConn := None, consConn := None\<rparr>,
            w @ (case pubConn r of None \<Rightarrow> [] | Some p \<Rightarrow> [ConnClose p])
              @ (case consConn r of None \<Rightarrow> [] | Some c \<Rightarrow> [ConnClose c]))"
  proof (cases "pubConn r")
    case pN: None
    show ?thesis
    proof (cases "consConn r")
      case None
      with pN assms show ?thesis
        by (simp add: Relay_Close_def Lock_def Unlock_def close_conn_None close_result_simps)
    next
      case (Some c)
      with pN assms show ?thesis
        by (simp add: Relay_Close_def Lock_def Unlock_def close_conn_None close_conn_Some
            close_result_simps split: option.splits)
    qed
  next
    case pS: (Some p)
    show ?thesis
    proof (cases "consConn r")
      case None
      with pS assms show ?thesis
        by (simp add: Relay_Close_def Lock_def Unlock_def close_conn_None close_conn_Some
            close_result_simps split: option.splits)
    next
      case (Some c)
      with pS assms show ?thesis
        by (simp add: Relay_Close_def Lock_def Unlock_def close_conn_Some
            close_result_simps split: option.splits)
    qed
  qed
  show ?thesis unfolding Let_def using main idle by blast
qed

theorem Relay_Close_closes_each_once_witness:
  "\<not> mutex two_conn_relay \<and>
   Relay_Close (test_env no_close_broker) two_conn_relay [] =
     Some (Some (Errorf ''Failed to Close! Got close failed and close failed''),
           two_conn_relay\<lparr>pubConn := None, consConn := None\<rparr>, [ConnClose 1, ConnClose 5]) \<and>
   Relay_Close (test_env no_close_broker) (two_conn_relay\<lparr>pubConn := None, consConn := None\<rparr>)
       [ConnClose 1, ConnClose 5] =
     Some (None, two_conn_relay\<lparr>pubConn := None, consConn := None\<rparr>, [ConnClose 1, ConnClose 5])"
proof -
  have m: "\<not> mutex two_conn_relay" by (simp add: two_conn_relay_def)
  show ?thesis
    using m Relay_Close_closes_each_once [OF m, of "test_env no_close_broker" "[]"]
    by (simp add: two_conn_relay_def test_env_def no_close_broker_def Let_def)
qed

section \<open>getChan\<close>

lemma Unlock_Lock_assign:
  "\<not> mutex r \<Longrightarrow> Unlock (assign cref v (r\<lparr>mutex := True\<rparr>)) = assign cref v r"
  by (cases cref) (simp_all add: Unlock_def)

lemma Unlock_Lock_id: "\<not> mutex r \<Longrightarrow> Unlock (r\<lparr>mutex := True\<rparr>) = r"
  by (simp add: Unlock_def)

lemma open_chan_old:
  "open_chan E False c r w =
     (case broker E w (OpenChannel c) of None \<Rightarrow> Inr (length w) | Some e \<Rightarrow> Inl e,
      r, w @ [OpenChannel c])"
  by (simp add: open_chan_def Let_def split: option.splits)

lemma open_chan_new_fails:
  "broker E w (OpenChannel c) = Some e \<Longrightarrow>
   open_chan E True c r w = (Inl e, r, w @ [OpenChannel c])"
  by (simp add: open_chan_def)

lemma open_chan_new:
  "broker E w (OpenChannel c) = None \<Longrightarrow>
   open_chan E True c r w =
     (case broker E (w @ [OpenChannel c])
             (ExchangeDeclare (length w) (Exchange (conf r)) ''direct'' True False False False) of
        None \<Rightarrow> Inr (length w)
      | Some e \<Rightarrow> Inl (Errorf (''Failed to declare exchange '' @ squote @ Exchange (conf r) @ squote
                               @ ''! Got: '' @ error_string e)),
      r,
      w @ [OpenChannel c,
           ExchangeDeclare (length w) (Exchange (conf r)) ''direct'' True False False False])"
  by (simp add: open_chan_def Let_def split: option.splits)

lemma getChan_cached:
  assumes "\<not> mutex r" "deref cref r = Some c"
  shows "getChan E cref r w =
     Some (case broker E w (OpenChannel c) of None \<Rightarrow> Inr (length w) | Some e \<Rightarrow> Inl e,
           r, w @ [OpenChannel c])"
  using assms
  by (simp add: getChan_def Lock_def getChan_locked_def open_chan_old Unlock_Lock_id)

lemma getChan_locked_fresh:
  assumes "deref cref r = None" "broker E w (Dial (dial_uri (conf r))) = None"
  shows "getChan_locked E cref r w =
     open_chan E True (length w) (assign cref (Some (length w)) r)
       (w @ [Dial (dial_uri (conf r)), NotifyClose (length w), GoWatchConn cref (length w)])"
  using assms by (simp add: getChan_locked_def getConn_def)

lemma getChan_fresh_no_channel:
  assumes "\<not> mutex r" "deref cref r = None" "broker E w (Dial (dial_uri (conf r))) = None"
    and "broker E (w @ [Dial (dial_uri (conf r)), NotifyClose (length w), GoWatchConn cref (length w)])
           (OpenChannel (length w)) = Some e"
  shows "getChan E cref r w =
     Some (Inl e, assign cref (Some (length w)) r,
           w @ [Dial (dial_uri (conf r)), NotifyClose (length w), GoWatchConn cref (length w),
                OpenChannel (length w)])"
  using assms
  by (simp add: getChan_def Lock_def getChan_locked_fresh open_chan_new_fails Unlock_Lock_assign)

lemma getChan_fresh:
  assumes "\<not> mutex r" "deref cref r = None" "broker E w (Dial (dial_uri (conf r))) = None"
    and "broker E (w @ [Dial (dial_uri (conf r)), NotifyClose (length w), GoWatchConn cref (length w)])
           (OpenChannel (length w)) = None"
  shows "getChan E cref r w =
     Some (case broker E (w @ [Dial (dial_uri (conf r)), NotifyClose (length w),
                               GoWatchConn cref (length w), OpenChannel (length w)])
                  (ExchangeDeclare (length w + 3) (Exchange (conf r)) ''direct''
                     True False False False) of
             None \<Rightarrow> Inr (length w + 3)
           | Some e \<Rightarrow> Inl (Errorf (''Failed to declare exchange '' @ squote @ Exchange (conf r)
                                    @ squote @ ''! Got: '' @ error_string e)),
           assign cref (Some (length w)) r,
           w @ [Dial (dial_uri (conf r)), NotifyClose (length w), GoWatchConn cref (length w),
                OpenChannel (length w),
                ExchangeDeclare (length w + 3) (Exchange (conf r)) ''direct''
                  True False False False])"
  using assms
  by (simp add: getChan_def Lock_def getChan_locked_fresh open_chan_new Unlock_Lock_assign
      numeral_3_eq_3 split: option.splits)

lemma getChan_calls_cached:
  assumes "\<not> mutex r" "deref cref r = Some c"
  shows "getChan_calls E cref n r w = Some (r, w @ replicate n (OpenChannel c))"
proof (induction n arbitrary: w)
  case 0
  show ?case by simp
next
  case (Suc n)
  show ?case
    by (simp add: getChan_cached[OF assms] Suc.IH replicate_app_Cons_same)
qed

text \<open>
  Claim C4.  \<open>getChan\<close>, called while nobody holds the mutex, returns.  When the role's
  connection is already cached and a channel opens on it, the call makes no other broker
  call than opening the channel: no exchange is declared.  When the connection is
  freshly dialed in this call and a channel opens on it, the call declares the exchange
  on that new channel, with the configured exchange name, type \<open>direct\<close>, durable, not
  auto-deleted; when the declaration fails the result is an error whose text holds the
  exchange name and the broker error's text.  In every call, an exchange declaration is
  among the call's events exactly when the connection was freshly dialed and a channel
  opened.
\<close>

theorem getChan_declares_exchange_iff_fresh:
  assumes "\<not> mutex r"
  shows
    "(\<forall>c. deref cref r = Some c \<longrightarrow> broker E w (OpenChannel c) = None \<longrightarrow>
        getChan E cref r w = Some (Inr (length w), r, w @ [OpenChannel c])) \<and>
     (deref cref r = None \<longrightarrow> broker E w (Dial (dial_uri (conf r))) = None \<longrightarrow>
      broker E (w @ [Dial (dial_uri (conf r)), NotifyClose (length w), GoWatchConn cref (length w)])
        (OpenChannel (length w)) = None \<longrightarrow>
        getChan E cref r w =
          Some (case broker E (w @ [Dial (dial_uri (conf r)), NotifyClose (length w),
                                    GoWatchConn cref (length w), OpenChannel (length w)])
                       (ExchangeDeclare (length w + 3) (Exchange (conf r)) ''direct''
                          True False False False) of
                  None \<Rightarrow> Inr (length w + 3)
                | Some e \<Rightarrow> Inl (Errorf (''Failed to declare exchange '' @ squote
                                         @ Exchange (conf r) @ squote @ ''! Got: ''
                                         @ error_string e)),
                assign cref (Some (length w)) r,
                w @ [Dial (dial_uri (conf r)), NotifyClose (length w),
                     GoWatchConn cref (length w), OpenChannel (length w),
                     ExchangeDeclare (length w + 3) (Exchange (conf r)) ''direct''
                       True False False False])) \<and>
     (\<exists>res r' w'. getChan E cref r w = Some (res, r', w') \<and>
        ((\<exists>ev \<in> set (drop (length w) w'). is_ExchangeDeclare ev) \<longleftrightarrow>
         (deref cref r = None \<and> broker E w (Dial (dial_uri (conf r))) = None \<and>
          broker E (w @ [Dial (dial_uri (conf r)), NotifyClose (length w),
                         GoWatchConn cref (length w)]) (OpenChannel (length w)) = None)))"
proof (intro conjI allI impI)
  fix c assume "deref cref r = Some c" "broker E w (OpenChannel c) = None"
  then show "getChan E cref r w = Some (Inr (length w), r, w @ [OpenChannel c])"
    using getChan_cached[OF assms, of cref c E w] by simp
next
  assume "deref cref r = None" "broker E w (Dial (dial_uri (conf r))) = None"
    "broker E (w @ [Dial (dial_uri (conf r)), NotifyClose (length w), GoWatchConn cref (length w)])
        (OpenChannel (length w)) = None"
  then show "getChan E cref r w =
          Some (case broker E (w @ [Dial (dial_uri (conf r)), NotifyClose (length w),
                                    GoWatchConn cref (length w), OpenChannel (length w)])
                       (ExchangeDeclare (length w + 3) (Exchange (conf r)) ''direct''
                          True False False False) of
                  None \<Rightarrow> Inr (length w + 3)
                | Some e \<Rightarrow> Inl (Errorf (''Failed to declare exchange '' @ squote
                                         @ Exchange (conf r) @ squote @ ''! Got: ''
                                         @ error_string e)),
                assign cref (Some (length w)) r,
                w @ [Dial (dial_uri (conf r)), NotifyClose (length w),
                     GoWatchConn cref (length w), OpenChannel (length w),
                     ExchangeDeclare (length w + 3) (Exchange (conf r)) ''direct''
                       True False False False])"
    by (rule getChan_fresh[OF assms])
next
  show "\<exists>res r' w'. getChan E cref r w = Some (res, r', w') \<and>
        ((\<exists>ev \<in> set (drop (length w) w'). is_ExchangeDeclare ev) \<longleftrightarrow>
         (deref cref r = None \<and> broker E w (Dial (dial_uri (conf r))) = None \<and>
          broker E (w @ [Dial (dial_uri (conf r)), NotifyClose (length w),
                         GoWatchConn cref (length w)]) (OpenChannel (length w)) = None))"
  proof (cases "deref cref r")
    case (Some c)
    show ?thesis using getChan_cached[OF assms Some, of E w] Some by simp
  next
    case None
    show ?thesis
    proof (cases "broker E w (Dial (dial_uri (conf r)))")
      case (Some e)
      show ?thesis using getChan_dial_fails[OF assms None Some] Some by simp
    next
      case dial: None
      show ?thesis
      proof (cases "broker E (w @ [Dial (dial_uri (conf r)), NotifyClose (length w),
                         GoWatchConn cref (length w)]) (OpenChannel (length w))")
        case (Some e)
        show ?thesis using getChan_fresh_no_channel[OF assms None dial Some] Some by simp
      next
        case ch: None
        show ?thesis using getChan_fresh[OF assms None dial ch] None dial ch by simp
      qed
    qed
  qed
qed

theorem getChan_declares_exchange_iff_fresh_witness:
  "\<not> mutex two_conn_relay \<and> \<not> mutex fresh_relay \<and>
   getChan (test_env ok_broker) ConsConnRef two_conn_relay [] =
     Some (Inr 0, two_conn_relay, [OpenChannel 5]) \<and>
   getChan (test_env no_declare_broker) ConsConnRef fresh_relay [] =
     Some (Inl (Errorf (''Failed to declare exchange '' @ squote @ ''relay'' @ squote
                        @ ''! Got: access refused'')),
           fresh_relay\<lparr>consConn := Some 0\<rparr>,
           [Dial (dial_uri (set_defaults zero_conf)), NotifyClose 0, GoWatchConn ConsConnRef 0,
            OpenChannel 0, ExchangeDeclare 3 ''relay'' ''direct'' True False False False])"
proof -
  have m1: "\<not> mutex two_conn_relay" by (simp add: two_conn_relay_def)
  have m2: "\<not> mutex fresh_relay" by (simp add: fresh_relay_def New_eq)
  have c: "conf fresh_relay = set_defaults zero_conf" by (simp add: fresh_relay_def New_eq)
  have x: "Exchange (set_defaults zero_conf) = ''relay''"
    by (simp add: set_defaults_Exchange zero_conf_def)
  show ?thesis
    using m1 m2
      getChan_declares_exchange_iff_fresh [OF m1, of ConsConnRef "test_env ok_broker" "[]"]
      getChan_declares_exchange_iff_fresh [OF m2, of ConsConnRef "test_env no_declare_broker" "[]"]
    by (simp add: c x two_conn_relay_def fresh_relay_def New_eq test_env_def ok_broker_def
        no_declare_broker_def)
qed

text \<open>
  Claim C10.  When \<open>getChan\<close> freshly dials a connection, opens a channel and the exchange
  declaration then fails, it returns the error and the freshly dialed connection stays
  cached for the role.  From then on, as long as that reference stays cached, every call
  of \<open>getChan\<close> on the role only opens a channel on the cached connection: it dials
  nothing and declares no exchange, whatever the broker answers, and leaves the relay as
  it is; so do any number of such calls in a row.
\<close>

theorem getChan_declare_failure_keeps_connection:
  assumes "\<not> mutex r" "deref cref r = None" "broker E w (Dial (dial_uri (conf r))) = None"
    and "broker E (w @ [Dial (dial_uri (conf r)), NotifyClose (length w), GoWatchConn cref (length w)])
           (OpenChannel (length w)) = None"
    and "broker E (w @ [Dial (dial_uri (conf r)), NotifyClose (length w),
                        GoWatchConn cref (length w), OpenChannel (length w)])
           (ExchangeDeclare (length w + 3) (Exchange (conf r)) ''direct'' True False False False)
         = Some e"
  shows "\<exists>r' w'.
      getChan E cref r w =
        Some (Inl (Errorf (''Failed to declare exchange '' @ squote @ Exchange (conf r) @ squote
                           @ ''! Got: '' @ error_string e)), r', w') \<and>
      deref cref r' = Some (length w) \<and> \<not> mutex r' \<and>
      (\<forall>E2 w2. getChan E2 cref r' w2 =
         Some (case broker E2 w2 (OpenChannel (length w)) of
                 None \<Rightarrow> Inr (length w2) | Some e2 \<Rightarrow> Inl e2,
               r', w2 @ [OpenChannel (length w)])) \<and>
      (\<forall>E2 n w2. getChan_calls E2 cref n r' w2 =
         Some (r', w2 @ replicate n (OpenChannel (length w))))"
proof -
  let ?r' = "assign cref (Some (length w)) r"
  have m: "\<not> mutex ?r'" using assms(1) by simp
  have d: "deref cref ?r' = Some (length w)" by simp
  show ?thesis
    using getChan_fresh[OF assms(1-4)] assms(5) m d
      getChan_cached[OF m d] getChan_calls_cached[OF m d]
    by simp
qed

theorem getChan_declare_failure_keeps_connection_witness:
  "\<not> mutex fresh_relay \<and> deref PubConnRef fresh_relay = None \<and>
   getChan (test_env no_declare_broker) PubConnRef fresh_relay [] =
     Some (Inl (Errorf (''Failed to declare exchange '' @ squote @ ''relay'' @ squote
                        @ ''! Got: access refused'')),
           fresh_relay\<lparr>pubConn := Some 0\<rparr>,
           [Dial (dial_uri (set_defaults zero_conf)), NotifyClose 0, GoWatchConn PubConnRef 0,
            OpenChannel 0, ExchangeDeclare 3 ''relay'' ''direct'' True False False False]) \<and>
   getChan_calls (test_env ok_broker) PubConnRef 2 (fresh_relay\<lparr>pubConn := Some 0\<rparr>) [] =
     Some (fresh_relay\<lparr>pubConn := Some 0\<rparr>, [OpenChannel 0, OpenChannel 0])"
proof -
  have m: "\<not> mutex fresh_relay" and d: "deref PubConnRef fresh_relay = None"
    by (simp_all add: fresh_relay_def New_eq)
  have c: "conf fresh_relay = set_defaults zero_conf" by (simp add: fresh_relay_def New_eq)
  have x: "Exchange (set_defaults zero_conf) = ''relay''"
    by (simp add: set_defaults_Exchange zero_conf_def)
  have a: "assign PubConnRef (Some 0) fresh_relay = fresh_relay\<lparr>pubConn := Some 0\<rparr>" by simp
  have h3: "broker (test_env no_declare_broker) [] (Dial (dial_uri (conf fresh_relay))) = None"
    by (simp add: test_env_def no_declare_broker_def)
  have h4: "broker (test_env no_declare_broker)
              ([] @ [Dial (dial_uri (conf fresh_relay)), NotifyClose (length ([]::event list)),
                     GoWatchConn PubConnRef (length ([]::event list))])
              (OpenChannel (length ([]::event list))) = None"
    by (simp add: test_env_def no_declare_broker_def)
  have h5: "broker (test_env no_declare_broker)
              ([] @ [Dial (dial_uri (conf fresh_relay)), NotifyClose (length ([]::event list)),
                     GoWatchConn PubConnRef (length ([]::event list)),
                     OpenChannel (length ([]::event list))])
              (ExchangeDeclare (length ([]::event list) + 3) (Exchange (conf fresh_relay))
                 ''direct'' True False False False) = Some (AmqpErr ''access refused'')"
    by (simp add: test_env_def no_declare_broker_def)
  from getChan_declare_failure_keeps_connection [OF m d h3 h4 h5]
  obtain r' w' where
    g: "getChan (test_env no_declare_broker) PubConnRef fresh_relay [] =
          Some (Inl (Errorf (''Failed to declare exchange '' @ squote @ Exchange (conf fresh_relay)
                             @ squote @ ''! Got: '' @ error_string (AmqpErr ''access refused''))),
                r', w')"
    and k: "\<forall>E2 n w2. getChan_calls E2 PubConnRef n r' w2 =
              Some (r', w2 @ replicate n (OpenChannel (length ([]::event list))))"
    by blast
  have g': "getChan (test_env no_declare_broker) PubConnRef fresh_relay [] =
     Some (Inl (Errorf (''Failed to declare exchange '' @ squote @ ''relay'' @ squote
                        @ ''! Got: access refused'')),
           fresh_relay\<lparr>pubConn := Some 0\<rparr>,
           [Dial (dial_uri (set_defaults zero_conf)), NotifyClose 0, GoWatchConn PubConnRef 0,
            OpenChannel 0, ExchangeDeclare 3 ''relay'' ''direct'' True False False False])"
    using getChan_fresh [OF m d h3 h4] h5 by (simp add: c x a)
  from g g' have r': "r' = fresh_relay\<lparr>pubConn := Some 0\<rparr>" by simp
  have "getChan_calls (test_env ok_broker) PubConnRef 2 r' [] =
          Some (r', [] @ replicate 2 (OpenChannel (length ([]::event list))))"
    using k by blast
  then have k': "getChan_calls (test_env ok_broker) PubConnRef 2 (fresh_relay\<lparr>pubConn := Some 0\<rparr>) [] =
     Some (fresh_relay\<lparr>pubConn := Some 0\<rparr>, [OpenChannel 0, OpenChannel 0])"
    by (simp add: r' numeral_2_eq_2)
  show ?thesis using m d g' k' by simp
qed

section \<open>watchConn\<close>

lemma watch_loop_left: "fst (watch_loop errs w) = (\<exists>n \<in> set errs. fatal n)"
  by (induction errs w rule: watch_loop.induct) (simp_all add: Let_def)

lemma watchConn_receiving:
  assumes "\<not> (\<exists>n \<in> set errs. fatal n)"
  shows "fst (watchConn cref errs r w) = Receiving" "fst (snd (watchConn cref errs r w)) = r"
  using assms watch_loop_left[of errs w]
  by (cases "watch_loop errs w"; simp add: watchConn_def)+

lemma watchConn_lock_wait:
  assumes "\<exists>n \<in> set errs. fatal n" "mutex r"
  shows "fst (watchConn cref errs r w) = LockWait" "fst (snd (watchConn cref errs r w)) = r"
  using assms watch_loop_left[of errs w]
  by (cases "watch_loop errs w"; simp add: watchConn_def Lock_def)+

lemma watchConn_returned:
  assumes "\<exists>n \<in> set errs. fatal n" "\<not> mutex r"
  shows "fst (watchConn cref errs r w) = Returned"
    "fst (snd (watchConn cref errs r w)) = assign cref None r"
  using assms watch_loop_left[of errs w]
  by (cases "watch_loop errs w"; simp add: watchConn_def Lock_def Unlock_Lock_assign)+

text \<open>
  Claim C3.  Whatever its notification stream has delivered so far, the watcher of a
  connection has cleared the cached reference of its role, taking the mutex first, exactly
  when one of the notifications was the close of the stream or an error not marked
  recoverable: then, with the mutex free, it has returned and the relay is the one it
  found with that one reference set to nil; with the mutex held by someone else it
  waits and has changed nothing.  While every notification was a recoverable error the
  watcher is still receiving and the relay, the cached reference with it, is unchanged.
\<close>

theorem watchConn_clears_exactly_on_fatal:
  "(case watchConn cref errs r w of
      (st, r', w') \<Rightarrow>
        (if (\<exists>n \<in> set errs. fatal n)
         then (if mutex r then st = LockWait \<and> r' = r
               else st = Returned \<and> r' = assign cref None r \<and> deref cref r' = None)
         else st = Receiving \<and> r' = r))"
proof (cases "\<exists>n \<in> set errs. fatal n")
  case False
  then show ?thesis
    using watchConn_receiving[OF False, of cref r w] by (simp add: case_prod_beta)
next
  case True
  show ?thesis
  proof (cases "mutex r")
    case m: True
    show ?thesis using watchConn_lock_wait[OF True m, of cref w] True m
      by (simp add: case_prod_beta)
  next
    case m: False
    show ?thesis using watchConn_returned[OF True m, of cref w] True m
      by (simp add: case_prod_beta)
  qed
qed

theorem watchConn_clears_exactly_on_fatal_witness:
  "fst (watchConn ConsConnRef [Err soft_error, Err soft_error] two_conn_relay []) = Receiving \<and>
   fst (snd (watchConn ConsConnRef [Err soft_error, Err soft_error] two_conn_relay []))
     = two_conn_relay \<and>
   fst (watchConn ConsConnRef [Err soft_error, Err hard_error] two_conn_relay []) = Returned \<and>
   fst (snd (watchConn ConsConnRef [Err soft_error, Err hard_error] two_conn_relay []))
     = two_conn_relay\<lparr>consConn := None\<rparr> \<and>
   fst (watchConn PubConnRef [Err soft_error, Closed] two_conn_relay []) = Returned \<and>
   fst (snd (watchConn PubConnRef [Err soft_error, Closed] two_conn_relay []))
     = two_conn_relay\<lparr>pubConn := None\<rparr> \<and>
   fst (watchConn PubConnRef [Closed] (two_conn_relay\<lparr>mutex := True\<rparr>) []) = LockWait"
  using
    watchConn_clears_exactly_on_fatal [where cref=ConsConnRef and errs="[Err soft_error, Err soft_error]" and r=two_conn_relay and w="[]"]
    watchConn_clears_exactly_on_fatal [where cref=ConsConnRef and errs="[Err soft_error, Err hard_error]" and r=two_conn_relay and w="[]"]
    watchConn_clears_exactly_on_fatal [where cref=PubConnRef and errs="[Err soft_error, Closed]" and r=two_conn_relay and w="[]"]
    watchConn_clears_exactly_on_fatal [where cref=PubConnRef and errs="[Closed]" and r="two_conn_relay\<lparr>mutex := True\<rparr>" and w="[]"]
  by (simp add: case_prod_beta soft_error_def hard_error_def two_conn_relay_def)

section \<open>Finalizers\<close>

lemma Relay_Consumer_finalizer:
  assumes "Relay_Consumer E queue r w = Some (Inr cons, r', w')"
  shows "\<exists>w0. w' = w0 @ [SetFinalizer (ConsumerObj cons)]"
  using assms
  by (auto simp add: Relay_Consumer_def Let_def split: option.splits sum.splits prod.splits)

lemma Relay_Publisher_finalizer:
  assumes "Relay_Publisher E queue r w = Some (Inr pub, r', w')"
  shows "\<exists>w0. w' = w0 @ [SetFinalizer (PublisherObj pub)]"
  using assms
  by (auto simp add: Relay_Publisher_def Let_def split: option.splits sum.splits prod.splits)

lemma Relay_Consumer_ok_example:
  "\<exists>cons r' w'. Relay_Consumer (test_env ok_broker) ''test'' fresh_relay [] = Some (Inr cons, r', w')"
  by (simp add: Relay_Consumer_def getChan_def getChan_locked_def getConn_def open_chan_def
      declareQueue_def set_qos_def Lock_def Unlock_def Let_def fresh_relay_def New_eq
      test_env_def ok_broker_def set_defaults_flags)

lemma Relay_Publisher_ok_example:
  "\<exists>pub r' w'. Relay_Publisher (test_env ok_broker) ''test'' fresh_relay [] = Some (Inr pub, r', w')"
  by (simp add: Relay_Publisher_def getChan_def getChan_locked_def getConn_def open_chan_def
      declareQueue_def attach_confirm_def Lock_def Unlock_def Let_def fresh_relay_def New_eq
      test_env_def ok_broker_def set_defaults_flags set_defaults_Serializer zero_conf_def)

text \<open>
  Claim C9, as stated: constructing a relay, a consumer or a publisher registers no
  finalizer.  It fails already for \<open>New\<close> on \<open>Config{}\<close>: the one effect of that call is
  a finalizer registration.
\<close>

theorem New_registers_finalizer_counterexample:
  "snd (New zero_conf []) = [SetFinalizer (RelayObj (set_defaults zero_conf))] \<and>
   is_SetFinalizer (last (snd (New zero_conf [])))"
  by (simp add: New_eq)

text \<open>
  Claim C9, amended.  \<open>New\<close> registers a finalizer on the relay it returns, and
  \<open>Relay.Consumer\<close> and \<open>Relay.Publisher\<close>, whenever they return a consumer or a
  publisher, have registered a finalizer on that object as their last effect: cleanup
  does not rest on explicit \<open>Close\<close> calls alone.
\<close>

theorem constructors_register_finalizers:
  "snd (New c w) = w @ [SetFinalizer (RelayObj (conf (fst (fst (New c w)))))] \<and>
   (\<forall>cons r' w'. Relay_Consumer E queue r w = Some (Inr cons, r', w') \<longrightarrow>
      (\<exists>w0. w' = w0 @ [SetFinalizer (ConsumerObj cons)])) \<and>
   (\<forall>pub r' w'. Relay_Publisher E queue r w = Some (Inr pub, r', w') \<longrightarrow>
      (\<exists>w0. w' = w0 @ [SetFinalizer (PublisherObj pub)]))"
  using Relay_Consumer_finalizer Relay_Publisher_finalizer by (simp add: New_eq)

theorem constructors_register_finalizers_witness:
  "(case Relay_Consumer (test_env ok_broker) ''test'' fresh_relay [] of
      Some (Inr cons, r', w') \<Rightarrow> last w' = SetFinalizer (ConsumerObj cons)
    | _ \<Rightarrow> False) \<and>
   (case Relay_Publisher (test_env ok_broker) ''test'' fresh_relay [] of
      Some (Inr pub, r', w') \<Rightarrow> last w' = SetFinalizer (PublisherObj pub)
    | _ \<Rightarrow> False)"
proof -
  obtain cons r1 w1 where
    c: "Relay_Consumer (test_env ok_broker) ''test'' fresh_relay [] = Some (Inr cons, r1, w1)"
    using Relay_Consumer_ok_example by blast
  obtain pub r2 w2 where
    p: "Relay_Publisher (test_env ok_broker) ''test'' fresh_relay [] = Some (Inr pub, r2, w2)"
    using Relay_Publisher_ok_example by blast
  note t = constructors_register_finalizers
             [of zero_conf "[]" "test_env ok_broker" "''test''" fresh_relay]
  from t c have "\<exists>w0. w1 = w0 @ [SetFinalizer (ConsumerObj cons)]" by blast
  moreover from t p have "\<exists>w0. w2 = w0 @ [SetFinalizer (PublisherObj pub)]" by blast
  ultimately show ?thesis using c p by auto
qed

end
